theory Spec2Isabelle
  imports Complex_Main
begin

section \<open>Values, exceptions and the runtime\<close>

text \<open>
  The proxy in \<^verbatim>\<open>backend/main.py\<close> moves JSON values between an OpenAI-shaped
  client interface and the Ollama server.  Python values that occur there are exactly the
  values \<^verbatim>\<open>json.loads\<close> produces and \<^verbatim>\<open>json.dumps\<close> accepts.  A \<^verbatim>\<open>dict\<close> is
  the list of its items in insertion order (keys distinct); a \<^verbatim>\<open>float\<close> is identified
  with the number its decimal literal denotes, or is one of the three special values.
\<close>

datatype pyfloat = Finite rat | NaN | PosInf | NegInf

datatype json =
    JNull
  | JBool bool
  | JInt int
  | JFloat pyfloat
  | JStr string
  | JArr "json list"
  | JObj "(string \<times> json) list"

text \<open>
  Exceptions are values.  \<open>RequestError\<close> stands for \<^verbatim>\<open>httpx.RequestError\<close> and its
  subclasses (connection refused, timeouts, read errors); \<open>HTTPException\<close> is FastAPI's
  exception with its status code and detail, itself a subclass of \<^verbatim>\<open>Exception\<close>;
  \<open>OtherException\<close> is any further subclass of \<^verbatim>\<open>Exception\<close>.
\<close>

datatype exn =
    HTTPException int string
  | RequestError string
  | JSONDecodeError string
  | AttributeError string
  | TypeError string
  | KeyError string
  | OtherException string

text \<open>
  What the libraries and the operating system supply is a parameter of the model:
  \<^verbatim>\<open>json.loads\<close>, the successive results of \<^verbatim>\<open>uuid.uuid4().hex\<close> and of
  \<^verbatim>\<open>int(time.time())\<close> (indexed by the number of earlier calls within the request),
  the text \<^verbatim>\<open>str(e)\<close> of an \<^verbatim>\<open>HTTPException\<close>, and addition when a float is involved.
\<close>

record runtime =
  loads :: "string \<Rightarrow> exn + json"
  uuid4_hex :: "nat \<Rightarrow> string"
  time_time :: "nat \<Rightarrow> int"
  str_HTTPException :: "int \<Rightarrow> string \<Rightarrow> string"
  float_add :: "json \<Rightarrow> json \<Rightarrow> exn + json"

fun str_exn :: "runtime \<Rightarrow> exn \<Rightarrow> string" where
  "str_exn rt (HTTPException status detail) = str_HTTPException rt status detail"
| "str_exn rt (RequestError msg) = msg"
| "str_exn rt (JSONDecodeError msg) = msg"
| "str_exn rt (AttributeError msg) = msg"
| "str_exn rt (TypeError msg) = msg"
| "str_exn rt (KeyError msg) = msg"
| "str_exn rt (OtherException msg) = msg"

fun is_JSONDecodeError :: "exn \<Rightarrow> bool" where
  "is_JSONDecodeError (JSONDecodeError msg) = True"
| "is_JSONDecodeError e = False"

fun is_RequestError :: "exn \<Rightarrow> bool" where
  "is_RequestError (RequestError msg) = True"
| "is_RequestError e = False"

text \<open>Python's truth value of an object, as tested by \<^verbatim>\<open>if x:\<close> and \<^verbatim>\<open>x or y\<close>.\<close>

fun truthy :: "json \<Rightarrow> bool" where
  "truthy JNull = False"
| "truthy (JBool b) = b"
| "truthy (JInt i) = (i \<noteq> 0)"
| "truthy (JFloat (Finite r)) = (r \<noteq> 0)"
| "truthy (JFloat f) = True"
| "truthy (JStr s) = (s \<noteq> [])"
| "truthy (JArr xs) = (xs \<noteq> [])"
| "truthy (JObj kvs) = (kvs \<noteq> [])"

fun type_name :: "json \<Rightarrow> string" where
  "type_name JNull = ''NoneType''"
| "type_name (JBool b) = ''bool''"
| "type_name (JInt i) = ''int''"
| "type_name (JFloat f) = ''float''"
| "type_name (JStr s) = ''str''"
| "type_name (JArr xs) = ''list''"
| "type_name (JObj kvs) = ''dict''"

text \<open>\<^verbatim>\<open>d.get(key, default)\<close> on a dict.\<close>

definition dict_get :: "(string \<times> json) list \<Rightarrow> string \<Rightarrow> json \<Rightarrow> json" where
  "dict_get kvs key dflt = (case map_of kvs key of None \<Rightarrow> dflt | Some v \<Rightarrow> v)"

text \<open>
  \<^verbatim>\<open>x.get(key, default)\<close> on whatever \<^verbatim>\<open>json.loads\<close> returned: only a dict has the
  method, every other value raises \<^verbatim>\<open>AttributeError\<close>.
\<close>

fun py_get :: "json \<Rightarrow> string \<Rightarrow> json \<Rightarrow> exn + json" where
  "py_get (JObj kvs) key dflt = Inr (dict_get kvs key dflt)"
| "py_get v key dflt =
     Inl (AttributeError ([CHR 0x27] @ type_name v @ [CHR 0x27] @
            '' object has no attribute '' @ [CHR 0x27] @ ''get'' @ [CHR 0x27]))"

text \<open>\<^verbatim>\<open>x[key]\<close> with a string key.\<close>

fun py_getitem :: "json \<Rightarrow> string \<Rightarrow> exn + json" where
  "py_getitem (JObj kvs) key =
     (case map_of kvs key of
        None \<Rightarrow> Inl (KeyError ([CHR 0x27] @ key @ [CHR 0x27]))
      | Some v \<Rightarrow> Inr v)"
| "py_getitem (JStr s) key = Inl (TypeError (''string indices must be integers, not '' @ [CHR 0x27] @ ''str'' @ [CHR 0x27]))"
| "py_getitem (JArr xs) key = Inl (TypeError ''list indices must be integers or slices, not str'')"
| "py_getitem v key =
     Inl (TypeError ([CHR 0x27] @ type_name v @ [CHR 0x27] @ '' object is not subscriptable''))"

text \<open>The items a \<^verbatim>\<open>for\<close> loop visits.\<close>

fun py_iter :: "json \<Rightarrow> exn + json list" where
  "py_iter (JArr xs) = Inr xs"
| "py_iter (JObj kvs) = Inr (map (\<lambda>kv. JStr (fst kv)) kvs)"
| "py_iter (JStr s) = Inr (map (\<lambda>c. JStr [c]) s)"
| "py_iter v =
     Inl (TypeError ([CHR 0x27] @ type_name v @ [CHR 0x27] @ '' object is not iterable''))"

text \<open>
  \<^verbatim>\<open>a + b\<close>.  \<^verbatim>\<open>bool\<close> is a subclass of \<^verbatim>\<open>int\<close>; strings and lists concatenate;
  float arithmetic is left to the runtime.
\<close>

fun as_int :: "json \<Rightarrow> int option" where
  "as_int (JInt i) = Some i"
| "as_int (JBool b) = Some (if b then 1 else 0)"
| "as_int v = None"

fun is_number :: "json \<Rightarrow> bool" where
  "is_number (JInt i) = True"
| "is_number (JBool b) = True"
| "is_number (JFloat f) = True"
| "is_number v = False"

definition py_add :: "runtime \<Rightarrow> json \<Rightarrow> json \<Rightarrow> exn + json" where
  "py_add rt a b =
     (case (as_int a, as_int b) of
        (Some i, Some j) \<Rightarrow> Inr (JInt (i + j))
      | _ \<Rightarrow>
        if is_number a \<and> is_number b then float_add rt a b
        else (case (a, b) of
            (JStr s, JStr t) \<Rightarrow> Inr (JStr (s @ t))
          | (JArr xs, JArr ys) \<Rightarrow> Inr (JArr (xs @ ys))
          | _ \<Rightarrow> Inl (TypeError (''unsupported operand type(s) for +: '' @
                    [CHR 0x27] @ type_name a @ [CHR 0x27] @ '' and '' @
                    [CHR 0x27] @ type_name b @ [CHR 0x27]))))"

section \<open>Request models\<close>

record Message =
  role :: string
  content :: string

text \<open>
  A field typed \<^verbatim>\<open>Optional[T] = d\<close> holds \<open>None\<close> (Python's \<^verbatim>\<open>None\<close>) or a value; when
  the request body omits the field, the declared default \<open>d\<close> is stored.
\<close>

datatype 'a body_field = Omitted | Given 'a

fun field_default :: "'a \<Rightarrow> 'a body_field \<Rightarrow> 'a" where
  "field_default d Omitted = d"
| "field_default d (Given v) = v"

record ChatCompletionRequest =
  model :: string
  messages :: "Message list"
  stream :: "bool option"
  temperature :: "pyfloat option"
  max_tokens :: "int option"
  top_p :: "pyfloat option"
  frequency_penalty :: "pyfloat option"
  presence_penalty :: "pyfloat option"

record CompletionRequest =
  model :: string
  prompt :: string
  stream :: "bool option"
  temperature :: "pyfloat option"
  max_tokens :: "int option"

text \<open>Building the two models from a request body, with the declared defaults.\<close>

definition new_ChatCompletionRequest ::
  "string \<Rightarrow> Message list \<Rightarrow> bool option body_field \<Rightarrow> pyfloat option body_field \<Rightarrow> int option body_field \<Rightarrow>
   pyfloat option body_field \<Rightarrow> pyfloat option body_field \<Rightarrow> pyfloat option body_field \<Rightarrow> ChatCompletionRequest" where
  "new_ChatCompletionRequest m ms s t mt tp fp pp =
     \<lparr> ChatCompletionRequest.model = m,
       messages = ms,
       stream = field_default (Some False) s,
       temperature = field_default (Some (Finite (7 / 10))) t,
       max_tokens = field_default (Some 1000) mt,
       top_p = field_default (Some (Finite 1)) tp,
       frequency_penalty = field_default (Some (Finite 0)) fp,
       presence_penalty = field_default (Some (Finite 0)) pp \<rparr>"

definition new_CompletionRequest ::
  "string \<Rightarrow> string \<Rightarrow> bool option body_field \<Rightarrow> pyfloat option body_field \<Rightarrow> int option body_field \<Rightarrow>
   CompletionRequest" where
  "new_CompletionRequest m p s t mt =
     \<lparr> CompletionRequest.model = m,
       prompt = p,
       stream = field_default (Some False) s,
       temperature = field_default (Some (Finite (7 / 10))) t,
       max_tokens = field_default (Some 1000) mt \<rparr>"

section \<open>Prompt builder\<close>

definition endswith :: "string \<Rightarrow> string \<Rightarrow> bool" where
  "endswith s suffix =
     (length suffix \<le> length s \<and> drop (length s - length suffix) s = suffix)"

text \<open>
  One iteration of the loop of \<^verbatim>\<open>convert_messages_to_ollama_prompt\<close>; \<open>acc\<close> is the
  source's variable \<^verbatim>\<open>prompt\<close>.
\<close>

definition add_message :: "string \<Rightarrow> Message \<Rightarrow> string" where
  "add_message acc message =
     (if role message = ''system'' then acc @ ''System: '' @ content message @ ''\<newline>\<newline>''
      else if role message = ''user'' then acc @ ''Human: '' @ content message @ ''\<newline>\<newline>''
      else if role message = ''assistant'' then
        acc @ ''Assistant: '' @ content message @ ''\<newline>\<newline>''
      else acc)"

definition convert_messages_to_ollama_prompt :: "Message list \<Rightarrow> string" where
  "convert_messages_to_ollama_prompt msgs =
     (let acc = foldl add_message [] msgs
      in if \<not> endswith acc ''Assistant:'' then acc @ ''Assistant:'' else acc)"

text \<open>The text one message contributes, as the specification words it.\<close>

definition turn_text :: "Message \<Rightarrow> string" where
  "turn_text message =
     (if role message = ''system'' then ''System: '' @ content message @ ''\<newline>\<newline>''
      else if role message = ''user'' then ''Human: '' @ content message @ ''\<newline>\<newline>''
      else if role message = ''assistant'' then ''Assistant: '' @ content message @ ''\<newline>\<newline>''
      else [])"

section \<open>Request translator\<close>

text \<open>An optional field as the JSON value the payload holds: \<^verbatim>\<open>None\<close> is \<^verbatim>\<open>null\<close>.\<close>

fun json_of_bool :: "bool option \<Rightarrow> json" where
  "json_of_bool None = JNull"
| "json_of_bool (Some b) = JBool b"

fun json_of_int :: "int option \<Rightarrow> json" where
  "json_of_int None = JNull"
| "json_of_int (Some i) = JInt i"

fun json_of_float :: "pyfloat option \<Rightarrow> json" where
  "json_of_float None = JNull"
| "json_of_float (Some f) = JFloat f"

text \<open>The dict \<^verbatim>\<open>ollama_payload\<close> of \<^verbatim>\<open>chat_completions\<close>.\<close>

definition chat_ollama_payload :: "ChatCompletionRequest \<Rightarrow> json" where
  "chat_ollama_payload request =
     JObj [(''model'', JStr (ChatCompletionRequest.model request)),
           (''prompt'', JStr (convert_messages_to_ollama_prompt (messages request))),
           (''stream'', json_of_bool (ChatCompletionRequest.stream request)),
           (''options'',
              JObj [(''temperature'', json_of_float (ChatCompletionRequest.temperature request)),
                    (''num_predict'', json_of_int (ChatCompletionRequest.max_tokens request)),
                    (''top_p'', json_of_float (top_p request))])]"

text \<open>The dict \<^verbatim>\<open>ollama_payload\<close> of \<^verbatim>\<open>completions\<close>.\<close>

definition completion_ollama_payload :: "CompletionRequest \<Rightarrow> json" where
  "completion_ollama_payload request =
     JObj [(''model'', JStr (CompletionRequest.model request)),
           (''prompt'', JStr (prompt request)),
           (''stream'', json_of_bool (CompletionRequest.stream request)),
           (''options'',
              JObj [(''temperature'', json_of_float (CompletionRequest.temperature request)),
                    (''num_predict'', json_of_int (CompletionRequest.max_tokens request))])]"

text \<open>
  Reading a JSON value: the member under a path of keys, the keys of an object, and every
  key that occurs at any depth.
\<close>

fun json_at :: "json \<Rightarrow> string list \<Rightarrow> json option" where
  "json_at j [] = Some j"
| "json_at (JObj kvs) (k # ks) =
     (case map_of kvs k of None \<Rightarrow> None | Some v \<Rightarrow> json_at v ks)"
| "json_at j (k # ks) = None"

fun object_keys :: "json \<Rightarrow> string list" where
  "object_keys (JObj kvs) = map fst kvs"
| "object_keys j = []"

fun all_keys :: "json \<Rightarrow> string list" where
  "all_keys (JObj kvs) = concat (map (\<lambda>kv. fst kv # all_keys (snd kv)) kvs)"
| "all_keys (JArr xs) = concat (map all_keys xs)"
| "all_keys j = []"

section \<open>Upstream behaviour and responses\<close>

text \<open>
  What the Ollama server does to one outbound call.  \<open>Refused e\<close>: the call raises \<open>e\<close>
  before any response arrives (connection refused, connect timeout).  \<open>Responded status
  lines fault\<close>: a response with that status code whose body consists of \<open>lines\<close>; when
  \<open>fault\<close> is \<open>Some e\<close>, reading the body raises \<open>e\<close> after these lines.
\<close>

datatype upstream = Refused exn | Responded int "string list" "exn option"

fun body_text :: "string list \<Rightarrow> string" where
  "body_text [] = []"
| "body_text [l] = l"
| "body_text (l # ls) = l @ ''\<newline>'' @ body_text ls"

text \<open>
  One item of a streamed body: \<open>SSE chunk\<close> is the text \<^verbatim>\<open>data: \<close> followed by
  \<^verbatim>\<open>json.dumps(chunk)\<close> and two newlines, \<open>Literal s\<close> is the string \<open>s\<close> itself.
\<close>

datatype frame = SSE json | Literal string

definition DONE_line :: frame where
  "DONE_line = Literal ''data: [DONE]\<newline>\<newline>''"

text \<open>
  What a handler hands to FastAPI: a JSON body, or a streaming body given by the
  frames its generator yields and the exception, if any, that escapes the generator.
  A handler that raises is \<open>Inl e\<close>.
\<close>

datatype response = JSONResponse json | StreamingResponse "frame list" "exn option"

text \<open>The status code the client sees.\<close>

fun status_code :: "exn + response \<Rightarrow> int" where
  "status_code (Inr r) = 200"
| "status_code (Inl (HTTPException status detail)) = status"
| "status_code (Inl e) = 500"

definition and_then :: "exn + 'a \<Rightarrow> ('a \<Rightarrow> exn + 'b) \<Rightarrow> exn + 'b" where
  "and_then r f = (case r of Inl e \<Rightarrow> Inl e | Inr v \<Rightarrow> f v)"

section \<open>Response builders\<close>

definition create_chat_completion_response ::
  "runtime \<Rightarrow> nat \<Rightarrow> json \<Rightarrow> string \<Rightarrow> string \<Rightarrow> json option \<Rightarrow> json" where
  "create_chat_completion_response rt k text mdl finish usage =
     JObj [(''id'', JStr (''chatcmpl-'' @ take 8 (uuid4_hex rt k))),
           (''object'', JStr ''chat.completion''),
           (''created'', JInt (time_time rt k)),
           (''model'', JStr mdl),
           (''choices'',
              JArr [JObj [(''index'', JInt 0),
                          (''message'', JObj [(''role'', JStr ''assistant''), (''content'', text)]),
                          (''finish_reason'', JStr finish)]]),
           (''usage'',
              (case usage of
                 Some u \<Rightarrow>
                   if truthy u then u
                   else JObj [(''prompt_tokens'', JInt 0), (''completion_tokens'', JInt 0),
                              (''total_tokens'', JInt 0)]
               | None \<Rightarrow>
                   JObj [(''prompt_tokens'', JInt 0), (''completion_tokens'', JInt 0),
                         (''total_tokens'', JInt 0)]))]"

definition create_stream_chunk ::
  "runtime \<Rightarrow> nat \<Rightarrow> json \<Rightarrow> string \<Rightarrow> string option \<Rightarrow> frame" where
  "create_stream_chunk rt k text mdl finish =
     SSE (JObj [(''id'', JStr (''chatcmpl-'' @ take 8 (uuid4_hex rt k))),
                (''object'', JStr ''chat.completion.chunk''),
                (''created'', JInt (time_time rt k)),
                (''model'', JStr mdl),
                (''choices'',
                   JArr [JObj [(''index'', JInt 0),
                               (''delta'', if truthy text then JObj [(''content'', text)] else JObj []),
                               (''finish_reason'',
                                  (case finish of None \<Rightarrow> JNull | Some f \<Rightarrow> JStr f))]])])"

text \<open>The chunk the streaming branch of \<^verbatim>\<open>completions\<close> builds inline.\<close>

definition text_completion_chunk :: "runtime \<Rightarrow> nat \<Rightarrow> json \<Rightarrow> string \<Rightarrow> frame" where
  "text_completion_chunk rt k text mdl =
     SSE (JObj [(''id'', JStr (''cmpl-'' @ take 8 (uuid4_hex rt k))),
                (''object'', JStr ''text_completion''),
                (''created'', JInt (time_time rt k)),
                (''model'', JStr mdl),
                (''choices'',
                   JArr [JObj [(''text'', text), (''index'', JInt 0), (''finish_reason'', JNull)]])])"

section \<open>Model listing\<close>

fun openai_models :: "runtime \<Rightarrow> nat \<Rightarrow> json list \<Rightarrow> exn + json list" where
  "openai_models rt k [] = Inr []"
| "openai_models rt k (mdl # rest) =
     and_then (py_getitem mdl ''name'') (\<lambda>name.
     and_then (openai_models rt (Suc k) rest) (\<lambda>others.
       Inr (JObj [(''id'', name), (''object'', JStr ''model''),
                  (''created'', JInt (time_time rt k)), (''owned_by'', JStr ''ollama'')] # others)))"

definition list_models_try :: "runtime \<Rightarrow> upstream \<Rightarrow> exn + json" where
  "list_models_try rt up =
     (case up of
        Refused e \<Rightarrow> Inl e
      | Responded status lines fault \<Rightarrow>
          (case fault of
             Some e \<Rightarrow> Inl e
           | None \<Rightarrow>
               if status \<noteq> 200 then Inl (HTTPException status ''Failed to fetch models from Ollama'')
               else
                 and_then (loads rt (body_text lines)) (\<lambda>tags.
                 and_then (py_get tags ''models'' (JArr [])) (\<lambda>ollama_models.
                 and_then (py_iter ollama_models) (\<lambda>items.
                 and_then (openai_models rt 0 items) (\<lambda>data.
                   Inr (JObj [(''object'', JStr ''list''), (''data'', JArr data)])))))))"

definition list_models :: "runtime \<Rightarrow> upstream \<Rightarrow> exn + response" where
  "list_models rt up =
     (case list_models_try rt up of
        Inr body \<Rightarrow> Inr (JSONResponse body)
      | Inl e \<Rightarrow>
          if is_RequestError e
          then Inl (HTTPException 503 (''Ollama service unavailable: '' @ str_exn rt e))
          else Inl e)"

section \<open>Stream translator\<close>

text \<open>
  How one pass through the body of the \<^verbatim>\<open>async for\<close> loop ends: the loop goes on to the
  next line, the generator returns, or an exception leaves the loop.
\<close>

datatype control = Continue | Return | Raise exn

fun is_chunk :: "frame \<Rightarrow> bool" where
  "is_chunk (SSE j) = True"
| "is_chunk (Literal s) = False"

text \<open>
  \<^verbatim>\<open>async for line in response.aiter_lines(): body\<close>.  The counter \<open>k\<close> is the number of
  chunks built so far, each of which drew one identifier and one timestamp.  The result is
  what was yielded, and \<open>Continue\<close> when the lines ran out.
\<close>

fun aiter_lines ::
  "(nat \<Rightarrow> string \<Rightarrow> frame list \<times> control) \<Rightarrow> nat \<Rightarrow> string list \<Rightarrow> exn option
   \<Rightarrow> frame list \<times> control" where
  "aiter_lines body k [] fault = ([], (case fault of None \<Rightarrow> Continue | Some e \<Rightarrow> Raise e))"
| "aiter_lines body k (line # rest) fault =
     (case body k line of
        (out, Continue) \<Rightarrow>
          (case aiter_lines body (k + length (filter is_chunk out)) rest fault of
             (later, c) \<Rightarrow> (out @ later, c))
      | (out, c) \<Rightarrow> (out, c))"

text \<open>The loop body of \<^verbatim>\<open>generate_stream\<close> in \<^verbatim>\<open>chat_completions\<close>.\<close>

definition chat_line :: "runtime \<Rightarrow> string \<Rightarrow> nat \<Rightarrow> string \<Rightarrow> frame list \<times> control" where
  "chat_line rt mdl k line =
     (if line = [] then ([], Continue)
      else
        (case loads rt line of
           Inl e \<Rightarrow> if is_JSONDecodeError e then ([], Continue) else ([], Raise e)
         | Inr data \<Rightarrow>
             (case py_get data ''response'' JNull of
                Inl e \<Rightarrow> ([], Raise e)
              | Inr r \<Rightarrow>
                  (case (if truthy r
                         then and_then (py_getitem data ''response'')
                                (\<lambda>text. Inr [create_stream_chunk rt k text mdl None])
                         else Inr []) of
                     Inl e \<Rightarrow> ([], Raise e)
                   | Inr out \<Rightarrow>
                       (case py_get data ''done'' JNull of
                          Inl e \<Rightarrow> (out, Raise e)
                        | Inr d \<Rightarrow>
                            if truthy d
                            then (out @ [create_stream_chunk rt (k + length out) (JStr []) mdl
                                           (Some ''stop''), DONE_line], Return)
                            else (out, Continue))))))"

definition chat_generate_stream ::
  "runtime \<Rightarrow> ChatCompletionRequest \<Rightarrow> upstream \<Rightarrow> frame list \<times> exn option" where
  "chat_generate_stream rt request up =
     (case up of
        Refused e \<Rightarrow>
          ([create_stream_chunk rt 0 (JStr (''Error: '' @ str_exn rt e))
              (ChatCompletionRequest.model request) (Some ''error'')], None)
      | Responded status lines fault \<Rightarrow>
          if status \<noteq> 200 then
            (case fault of
               Some e \<Rightarrow>
                 ([create_stream_chunk rt 0 (JStr (''Error: '' @ str_exn rt e))
                     (ChatCompletionRequest.model request) (Some ''error'')], None)
             | None \<Rightarrow>
                 ([create_stream_chunk rt 0 (JStr (''Error: '' @ body_text lines))
                     (ChatCompletionRequest.model request) (Some ''error'')], None))
          else
            (case aiter_lines (chat_line rt (ChatCompletionRequest.model request)) 0 lines fault of
               (out, Raise e) \<Rightarrow>
                 (out @ [create_stream_chunk rt (length (filter is_chunk out))
                           (JStr (''Error: '' @ str_exn rt e))
                           (ChatCompletionRequest.model request) (Some ''error'')], None)
             | (out, c) \<Rightarrow> (out, None)))"

text \<open>The loop body of \<^verbatim>\<open>generate_stream\<close> in \<^verbatim>\<open>completions\<close>.\<close>

definition completion_line :: "runtime \<Rightarrow> string \<Rightarrow> nat \<Rightarrow> string \<Rightarrow> frame list \<times> control" where
  "completion_line rt mdl k line =
     (if line = [] then ([], Continue)
      else
        (case loads rt line of
           Inl e \<Rightarrow> if is_JSONDecodeError e then ([], Continue) else ([], Raise e)
         | Inr data \<Rightarrow>
             (case py_get data ''response'' JNull of
                Inl e \<Rightarrow> ([], Raise e)
              | Inr r \<Rightarrow>
                  (case (if truthy r
                         then and_then (py_getitem data ''response'')
                                (\<lambda>text. Inr [text_completion_chunk rt k text mdl])
                         else Inr []) of
                     Inl e \<Rightarrow> ([], Raise e)
                   | Inr out \<Rightarrow>
                       (case py_get data ''done'' JNull of
                          Inl e \<Rightarrow> (out, Raise e)
                        | Inr d \<Rightarrow>
                            if truthy d then (out @ [DONE_line], Return)
                            else (out, Continue))))))"

definition completion_generate_stream ::
  "runtime \<Rightarrow> CompletionRequest \<Rightarrow> upstream \<Rightarrow> frame list \<times> exn option" where
  "completion_generate_stream rt request up =
     (case up of
        Refused e \<Rightarrow> ([], Some e)
      | Responded status lines fault \<Rightarrow>
          (case aiter_lines (completion_line rt (CompletionRequest.model request)) 0 lines fault of
             (out, Raise e) \<Rightarrow> (out, Some e)
           | (out, c) \<Rightarrow> (out, None)))"

section \<open>The two endpoints\<close>

text \<open>\<^verbatim>\<open>if request.stream:\<close> on an optional boolean.\<close>

fun streaming :: "bool option \<Rightarrow> bool" where
  "streaming None = False"
| "streaming (Some b) = b"

text \<open>The non-streaming branch of \<^verbatim>\<open>chat_completions\<close>, inside its \<^verbatim>\<open>try\<close>.\<close>

definition chat_completions_try ::
  "runtime \<Rightarrow> ChatCompletionRequest \<Rightarrow> upstream \<Rightarrow> exn + json" where
  "chat_completions_try rt request up =
     (case up of
        Refused e \<Rightarrow> Inl e
      | Responded status lines fault \<Rightarrow>
          (case fault of
             Some e \<Rightarrow> Inl e
           | None \<Rightarrow>
               if status \<noteq> 200 then Inl (HTTPException status ''Failed to generate response'')
               else
                 and_then (loads rt (body_text lines)) (\<lambda>ollama_response.
                 and_then (py_get ollama_response ''prompt_eval_count'' (JInt 0)) (\<lambda>prompt_tokens.
                 and_then (py_get ollama_response ''eval_count'' (JInt 0)) (\<lambda>completion_tokens.
                 and_then (py_add rt prompt_tokens completion_tokens) (\<lambda>total_tokens.
                 and_then (py_get ollama_response ''response'' (JStr [])) (\<lambda>text.
                   Inr (create_chat_completion_response rt 0 text
                          (ChatCompletionRequest.model request) ''stop''
                          (Some (JObj [(''prompt_tokens'', prompt_tokens),
                                       (''completion_tokens'', completion_tokens),
                                       (''total_tokens'', total_tokens)]))))))))))"

definition chat_completions ::
  "runtime \<Rightarrow> ChatCompletionRequest \<Rightarrow> upstream \<Rightarrow> exn + response" where
  "chat_completions rt request up =
     (if streaming (ChatCompletionRequest.stream request)
      then (case chat_generate_stream rt request up of
              (frames, escaped) \<Rightarrow> Inr (StreamingResponse frames escaped))
      else (case chat_completions_try rt request up of
              Inr body \<Rightarrow> Inr (JSONResponse body)
            | Inl e \<Rightarrow> Inl (HTTPException 500 (str_exn rt e))))"

text \<open>The non-streaming branch of \<^verbatim>\<open>completions\<close>, inside its \<^verbatim>\<open>try\<close>.\<close>

definition completions_try :: "runtime \<Rightarrow> CompletionRequest \<Rightarrow> upstream \<Rightarrow> exn + json" where
  "completions_try rt request up =
     (case up of
        Refused e \<Rightarrow> Inl e
      | Responded status lines fault \<Rightarrow>
          (case fault of
             Some e \<Rightarrow> Inl e
           | None \<Rightarrow>
               if status \<noteq> 200 then Inl (HTTPException status ''Failed to generate response'')
               else
                 and_then (loads rt (body_text lines)) (\<lambda>ollama_response.
                 and_then (py_get ollama_response ''response'' (JStr [])) (\<lambda>text.
                 and_then (py_get ollama_response ''prompt_eval_count'' (JInt 0)) (\<lambda>prompt_tokens.
                 and_then (py_get ollama_response ''eval_count'' (JInt 0)) (\<lambda>completion_tokens.
                 and_then (py_add rt prompt_tokens completion_tokens) (\<lambda>total_tokens.
                   Inr (JObj [(''id'', JStr (''cmpl-'' @ take 8 (uuid4_hex rt 0))),
                              (''object'', JStr ''text_completion''),
                              (''created'', JInt (time_time rt 0)),
                              (''model'', JStr (CompletionRequest.model request)),
                              (''choices'',
                                 JArr [JObj [(''text'', text), (''index'', JInt 0),
                                             (''finish_reason'', JStr ''stop'')]]),
                              (''usage'',
                                 JObj [(''prompt_tokens'', prompt_tokens),
                                       (''completion_tokens'', completion_tokens),
                                       (''total_tokens'', total_tokens)])]))))))))"

definition completions :: "runtime \<Rightarrow> CompletionRequest \<Rightarrow> upstream \<Rightarrow> exn + response" where
  "completions rt request up =
     (if streaming (CompletionRequest.stream request)
      then (case completion_generate_stream rt request up of
              (frames, escaped) \<Rightarrow> Inr (StreamingResponse frames escaped))
      else (case completions_try rt request up of
              Inr body \<Rightarrow> Inr (JSONResponse body)
            | Inl e \<Rightarrow> Inl (HTTPException 500 (str_exn rt e))))"

section \<open>Reading the output and the upstream lines\<close>

text \<open>The \<^verbatim>\<open>finish_reason\<close> and the text of the first choice of a chunk.\<close>

fun finish_reason :: "frame \<Rightarrow> json option" where
  "finish_reason (SSE chunk) =
     (case json_at chunk [''choices''] of
        Some (JArr (choice # others)) \<Rightarrow> json_at choice [''finish_reason'']
      | _ \<Rightarrow> None)"
| "finish_reason (Literal s) = None"

fun delta_content :: "frame \<Rightarrow> json option" where
  "delta_content (SSE chunk) =
     (case json_at chunk [''choices''] of
        Some (JArr (choice # others)) \<Rightarrow> json_at choice [''delta'', ''content'']
      | _ \<Rightarrow> None)"
| "delta_content (Literal s) = None"

definition is_stop_chunk :: "frame \<Rightarrow> bool" where
  "is_stop_chunk f = (finish_reason f = Some (JStr ''stop''))"

definition is_error_chunk :: "frame \<Rightarrow> bool" where
  "is_error_chunk f = (finish_reason f = Some (JStr ''error''))"

text \<open>A chunk is finished when its \<open>finish_reason\<close> is present and not \<open>null\<close>.\<close>

definition is_finished :: "frame \<Rightarrow> bool" where
  "is_finished f = (finish_reason f \<noteq> None \<and> finish_reason f \<noteq> Some JNull)"

text \<open>A frame that signals the end: the \<open>[DONE]\<close> line or a finished chunk.\<close>

definition is_terminal :: "frame \<Rightarrow> bool" where
  "is_terminal f = (f = DONE_line \<or> is_finished f)"

definition finished_count :: "frame list \<Rightarrow> nat" where
  "finished_count frames = length (filter is_finished frames)"

definition DONE_count :: "frame list \<Rightarrow> nat" where
  "DONE_count frames = length (filter (\<lambda>f. f = DONE_line) frames)"

definition stop_count :: "frame list \<Rightarrow> nat" where
  "stop_count frames = length (filter is_stop_chunk frames)"

text \<open>
  The output ends with a stop chunk and then the \<open>[DONE]\<close> line, and neither occurs
  earlier; the output ends with the \<open>[DONE]\<close> line, which does not occur earlier, and has
  no stop chunk at all.
\<close>

definition ends_stop_DONE :: "frame list \<Rightarrow> bool" where
  "ends_stop_DONE frames =
     (case rev frames of
        d # s # earlier \<Rightarrow>
          d = DONE_line \<and> is_stop_chunk s \<and> s \<noteq> DONE_line \<and> \<not> is_stop_chunk d
          \<and> list_all (\<lambda>f. \<not> is_terminal f) earlier
      | _ \<Rightarrow> False)"

definition ends_DONE_only :: "frame list \<Rightarrow> bool" where
  "ends_DONE_only frames =
     (case rev frames of
        d # earlier \<Rightarrow>
          d = DONE_line \<and> \<not> is_stop_chunk d \<and> list_all (\<lambda>f. \<not> is_terminal f) earlier
      | [] \<Rightarrow> False)"

text \<open>
  The kinds of upstream line.  A line is skipped when it is blank or \<^verbatim>\<open>json.loads\<close>
  raises \<^verbatim>\<open>JSONDecodeError\<close> on it; it is an event when it decodes to an object, and a
  done event when the object's \<open>done\<close> member is true in Python's sense.
\<close>

definition skipped :: "runtime \<Rightarrow> string \<Rightarrow> bool" where
  "skipped rt line =
     (line = [] \<or> (case loads rt line of Inl e \<Rightarrow> is_JSONDecodeError e | Inr v \<Rightarrow> False))"

definition is_event :: "runtime \<Rightarrow> string \<Rightarrow> bool" where
  "is_event rt line =
     (line \<noteq> [] \<and> (case loads rt line of Inr (JObj kvs) \<Rightarrow> True | _ \<Rightarrow> False))"

definition is_done_event :: "runtime \<Rightarrow> string \<Rightarrow> bool" where
  "is_done_event rt line =
     (line \<noteq> [] \<and>
      (case loads rt line of Inr (JObj kvs) \<Rightarrow> truthy (dict_get kvs ''done'' JNull) | _ \<Rightarrow> False))"

definition readable :: "runtime \<Rightarrow> string \<Rightarrow> bool" where
  "readable rt line = (skipped rt line \<or> is_event rt line)"

text \<open>
  A done event is reached: it is preceded by skipped lines and events only.
\<close>

fun reads_done :: "runtime \<Rightarrow> string list \<Rightarrow> bool" where
  "reads_done rt [] = False"
| "reads_done rt (line # rest) =
     (if skipped rt line then reads_done rt rest
      else if is_done_event rt line then True
      else if is_event rt line then reads_done rt rest
      else False)"

text \<open>The two counts of an upstream reply, and their values with 0 for an absent one.\<close>

definition is_count :: "(string \<times> json) list \<Rightarrow> string \<Rightarrow> bool" where
  "is_count kvs key =
     (case map_of kvs key of None \<Rightarrow> True | Some (JInt n) \<Rightarrow> 0 \<le> n | Some v \<Rightarrow> False)"

definition count_or_0 :: "(string \<times> json) list \<Rightarrow> string \<Rightarrow> int" where
  "count_or_0 kvs key = (case map_of kvs key of Some (JInt n) \<Rightarrow> n | _ \<Rightarrow> 0)"

text \<open>The content chunk, if any, that an event with the members \<open>kvs\<close> produces.\<close>

definition chat_text :: "runtime \<Rightarrow> string \<Rightarrow> nat \<Rightarrow> (string \<times> json) list \<Rightarrow> frame list" where
  "chat_text rt mdl k kvs =
     (if truthy (dict_get kvs ''response'' JNull)
      then [create_stream_chunk rt k (dict_get kvs ''response'' JNull) mdl None] else [])"

definition completion_text :: "runtime \<Rightarrow> string \<Rightarrow> nat \<Rightarrow> (string \<times> json) list \<Rightarrow> frame list" where
  "completion_text rt mdl k kvs =
     (if truthy (dict_get kvs ''response'' JNull)
      then [text_completion_chunk rt k (dict_get kvs ''response'' JNull) mdl] else [])"

section \<open>A concrete runtime and concrete traffic\<close>

text \<open>
  The lines of the specification's streaming scenario, a reply body of the
  non-streaming call, a line that is JSON but not an object, and a line that is not JSON.
\<close>

definition line_Hel :: string where
  \<open>line_Hel = ''{"response":"Hel"}''\<close>

definition line_lo :: string where
  \<open>line_lo = ''{"response":"lo"}''\<close>

definition line_done :: string where
  \<open>line_done = ''{"done":true,"prompt_eval_count":5,"eval_count":2}''\<close>

definition body_Hello :: string where
  \<open>body_Hello = ''{"response":"Hello","prompt_eval_count":5,"eval_count":2}''\<close>

definition line_42 :: string where
  "line_42 = ''42''"

definition line_garbage :: string where
  "line_garbage = ''not json''"

text \<open>
  A runtime whose \<open>loads\<close> agrees with \<^verbatim>\<open>json.loads\<close> on these six texts, the only ones
  it is applied to below.
\<close>

definition example_loads :: "string \<Rightarrow> exn + json" where
  "example_loads line =
     (case map_of
        [(line_Hel, JObj [(''response'', JStr ''Hel'')]),
         (line_lo, JObj [(''response'', JStr ''lo'')]),
         (line_done,
            JObj [(''done'', JBool True), (''prompt_eval_count'', JInt 5), (''eval_count'', JInt 2)]),
         (body_Hello,
            JObj [(''response'', JStr ''Hello''), (''prompt_eval_count'', JInt 5),
                  (''eval_count'', JInt 2)]),
         (line_42, JInt 42)] line of
        Some v \<Rightarrow> Inr v
      | None \<Rightarrow> Inl (JSONDecodeError ''Expecting value: line 1 column 1 (char 0)''))"

text \<open>Decimal notation, for the text of an \<^verbatim>\<open>HTTPException\<close>: status, colon, detail.\<close>

fun str_nat :: "nat \<Rightarrow> string" where
  "str_nat n =
     (if n < 10 then [char_of (48 + n)]
      else str_nat (n div 10) @ [char_of (48 + n mod 10)])"

definition str_int :: "int \<Rightarrow> string" where
  "str_int i = (if i < 0 then ''-'' @ str_nat (nat (- i)) else str_nat (nat i))"

definition example_runtime :: runtime where
  "example_runtime =
     \<lparr> loads = example_loads,
       uuid4_hex = (\<lambda>k. if k = 0 then ''3f2a9c1e5b7d4e0f8a6b2c4d9e1f0a3b''
                         else if k = 1 then ''a41c07d2e95b4f318c6d0b7e2f9a5c13''
                         else ''7be0d3169c2a48f5b1e47a0c6d8f2935''),
       time_time = (\<lambda>k. 1700000000),
       str_HTTPException = (\<lambda>status detail. str_int status @ '': '' @ detail),
       float_add = (\<lambda>a b. Inr (JFloat NaN)) \<rparr>"

definition chat_request :: "bool \<Rightarrow> ChatCompletionRequest" where
  "chat_request s =
     new_ChatCompletionRequest ''llama3'' [\<lparr>role = ''user'', content = ''Hi''\<rparr>]
       (Given (Some s)) Omitted Omitted Omitted Omitted Omitted"

definition completion_request :: "bool \<Rightarrow> CompletionRequest" where
  "completion_request s =
     new_CompletionRequest ''llama3'' ''Hi'' (Given (Some s)) Omitted Omitted"

text \<open>Requests whose optional numbers are given as \<^verbatim>\<open>null\<close>.\<close>

definition null_chat_request :: ChatCompletionRequest where
  "null_chat_request =
     new_ChatCompletionRequest ''llama3'' [\<lparr>role = ''user'', content = ''Hi''\<rparr>]
       Omitted (Given None) (Given None) (Given None) Omitted Omitted"

definition null_completion_request :: CompletionRequest where
  "null_completion_request =
     new_CompletionRequest ''llama3'' ''Hi'' Omitted (Given None) (Given None)"

section \<open>The prompt builder is correct\<close>

lemma add_message_turn_text: "add_message p m = p @ turn_text m"
  by (simp add: add_message_def turn_text_def)

lemma foldl_add_message: "foldl add_message p ms = p @ concat (map turn_text ms)"
  by (induction ms arbitrary: p) (simp_all add: add_message_turn_text)

lemma turn_text_last: "turn_text m \<noteq> [] \<Longrightarrow> last (turn_text m) = CHR 0x0A"
  by (simp add: turn_text_def split: if_splits)

lemma concat_turn_text_last:
  "concat (map turn_text ms) \<noteq> [] \<Longrightarrow> last (concat (map turn_text ms)) = CHR 0x0A"
proof (induction ms rule: rev_induct)
  case Nil
  then show ?case by simp
next
  case (snoc m ms)
  show ?case
  proof (cases "turn_text m = []")
    case True
    with snoc show ?thesis by simp
  next
    case False
    then show ?thesis by (simp add: turn_text_last)
  qed
qed

lemma endswith_last: "endswith s suffix \<Longrightarrow> suffix \<noteq> [] \<Longrightarrow> last s = last suffix"
proof -
  assume a: "endswith s suffix" and n: "suffix \<noteq> []"
  from a have "s = take (length s - length suffix) s @ suffix"
    by (metis append_take_drop_id endswith_def)
  then have "last s = last (take (length s - length suffix) s @ suffix)" by simp
  with n show ?thesis by simp
qed

lemma endswith_nonempty: "endswith s suffix \<Longrightarrow> suffix \<noteq> [] \<Longrightarrow> s \<noteq> []"
  by (auto simp: endswith_def)

lemma turns_not_endswith: "\<not> endswith (concat (map turn_text ms)) ''Assistant:''"
proof
  assume e: "endswith (concat (map turn_text ms)) ''Assistant:''"
  from endswith_nonempty [OF e] have ne: "concat (map turn_text ms) \<noteq> []"
    by simp
  from endswith_last [OF e] have "last (concat (map turn_text ms)) = CHR '':''" by simp
  with concat_turn_text_last [OF ne] show False by simp
qed

lemma endswith_append: "endswith (s @ suffix) suffix"
  by (simp add: endswith_def)

text \<open>
  C7.  The prompt builder is a function of the message list alone.  Its result is the
  texts \<open>System: c\<close>, \<open>Human: c\<close>, \<open>Assistant: c\<close> (each followed by two newlines) of the
  system, user and assistant messages in their order, nothing for a message of any other
  role, and then the literal \<open>Assistant:\<close>; so it always ends with \<open>Assistant:\<close>, the empty
  list gives exactly \<open>Assistant:\<close>, and the two-message scenario of the specification gives
  the stated prompt.
\<close>

theorem prompt_builder_correct:
  "convert_messages_to_ollama_prompt msgs = concat (map turn_text msgs) @ ''Assistant:''
   \<and> endswith (convert_messages_to_ollama_prompt msgs) ''Assistant:''
   \<and> convert_messages_to_ollama_prompt [] = ''Assistant:''
   \<and> turn_text \<lparr>role = ''system'', content = c\<rparr> = ''System: '' @ c @ ''\<newline>\<newline>''
   \<and> turn_text \<lparr>role = ''user'', content = c\<rparr> = ''Human: '' @ c @ ''\<newline>\<newline>''
   \<and> turn_text \<lparr>role = ''assistant'', content = c\<rparr> = ''Assistant: '' @ c @ ''\<newline>\<newline>''
   \<and> (r \<notin> {''system'', ''user'', ''assistant''} \<longrightarrow> turn_text \<lparr>role = r, content = c\<rparr> = [])
   \<and> convert_messages_to_ollama_prompt
        [\<lparr>role = ''system'', content = ''Be terse''\<rparr>, \<lparr>role = ''user'', content = ''Hi''\<rparr>]
       = ''System: Be terse\<newline>\<newline>Human: Hi\<newline>\<newline>Assistant:''"
proof -
  have eq: "\<And>ms. convert_messages_to_ollama_prompt ms = concat (map turn_text ms) @ ''Assistant:''"
    unfolding convert_messages_to_ollama_prompt_def Let_def
    by (simp only: foldl_add_message append_Nil turns_not_endswith not_False_eq_True if_True)
  have e: "endswith (convert_messages_to_ollama_prompt msgs) ''Assistant:''"
    by (simp only: eq endswith_append)
  have t: "r \<notin> {''system'', ''user'', ''assistant''} \<longrightarrow> turn_text \<lparr>role = r, content = c\<rparr> = []"
    by (simp add: turn_text_def)
  show ?thesis
    using eq [of msgs] e t by (simp add: eq turn_text_def)
qed

theorem prompt_builder_correct_witness:
  "''tool'' \<notin> {''system'', ''user'', ''assistant''}
   \<and> turn_text \<lparr>role = ''tool'', content = ''42''\<rparr> = []
   \<and> convert_messages_to_ollama_prompt
        [\<lparr>role = ''tool'', content = ''42''\<rparr>, \<lparr>role = ''user'', content = ''Hi''\<rparr>]
       = ''Human: Hi\<newline>\<newline>Assistant:''"
  using prompt_builder_correct [of "[\<lparr>role = ''tool'', content = ''42''\<rparr>, \<lparr>role = ''user'', content = ''Hi''\<rparr>]" "''42''" "''tool''"]
  by (simp add: turn_text_def)

section \<open>The request translator is correct\<close>

text \<open>
  C8.  For every chat request the payload's \<open>options.num_predict\<close>, \<open>options.temperature\<close>
  and \<open>options.top_p\<close> hold the request's \<open>max_tokens\<close>, \<open>temperature\<close> and \<open>top_p\<close>: the
  number itself when the field holds one, \<open>null\<close> when it holds \<open>None\<close>.  No key
  \<open>frequency_penalty\<close> or \<open>presence_penalty\<close> occurs at any depth of the payload.  For
  every completion request the payload's \<open>prompt\<close> is the request's prompt unchanged, its
  \<open>options\<close> have exactly the keys \<open>temperature\<close> and \<open>num_predict\<close>, holding the
  request's \<open>temperature\<close> and \<open>max_tokens\<close>, and no key \<open>top_p\<close> occurs in the payload.
\<close>

theorem request_translator_fields:
  "(ChatCompletionRequest.max_tokens creq = Some n \<longrightarrow>
      json_at (chat_ollama_payload creq) [''options'', ''num_predict''] = Some (JInt n))
   \<and> (ChatCompletionRequest.max_tokens creq = None \<longrightarrow>
      json_at (chat_ollama_payload creq) [''options'', ''num_predict''] = Some JNull)
   \<and> (ChatCompletionRequest.temperature creq = Some t \<longrightarrow>
      json_at (chat_ollama_payload creq) [''options'', ''temperature''] = Some (JFloat t))
   \<and> (ChatCompletionRequest.temperature creq = None \<longrightarrow>
      json_at (chat_ollama_payload creq) [''options'', ''temperature''] = Some JNull)
   \<and> (top_p creq = Some tp \<longrightarrow>
      json_at (chat_ollama_payload creq) [''options'', ''top_p''] = Some (JFloat tp))
   \<and> (top_p creq = None \<longrightarrow>
      json_at (chat_ollama_payload creq) [''options'', ''top_p''] = Some JNull)
   \<and> ''frequency_penalty'' \<notin> set (all_keys (chat_ollama_payload creq))
   \<and> ''presence_penalty'' \<notin> set (all_keys (chat_ollama_payload creq))
   \<and> json_at (completion_ollama_payload preq) [''prompt''] = Some (JStr (prompt preq))
   \<and> (\<exists>opts. json_at (completion_ollama_payload preq) [''options''] = Some opts
         \<and> object_keys opts = [''temperature'', ''num_predict''])
   \<and> (CompletionRequest.temperature preq = Some t' \<longrightarrow>
      json_at (completion_ollama_payload preq) [''options'', ''temperature''] = Some (JFloat t'))
   \<and> (CompletionRequest.temperature preq = None \<longrightarrow>
      json_at (completion_ollama_payload preq) [''options'', ''temperature''] = Some JNull)
   \<and> (CompletionRequest.max_tokens preq = Some n' \<longrightarrow>
      json_at (completion_ollama_payload preq) [''options'', ''num_predict''] = Some (JInt n'))
   \<and> (CompletionRequest.max_tokens preq = None \<longrightarrow>
      json_at (completion_ollama_payload preq) [''options'', ''num_predict''] = Some JNull)
   \<and> ''top_p'' \<notin> set (all_keys (completion_ollama_payload preq))"
proof -
  have leaf_b: "\<And>b. all_keys (json_of_bool b) = []"
    by (case_tac b) simp_all
  have leaf_i: "\<And>i. all_keys (json_of_int i) = []"
    by (case_tac i) simp_all
  have leaf_f: "\<And>f. all_keys (json_of_float f) = []"
    by (case_tac f) simp_all
  have chat_keys: "all_keys (chat_ollama_payload creq)
      = [''model'', ''prompt'', ''stream'', ''options'', ''temperature'', ''num_predict'', ''top_p'']"
    by (simp add: chat_ollama_payload_def leaf_b leaf_i leaf_f)
  have compl_keys: "all_keys (completion_ollama_payload preq)
      = [''model'', ''prompt'', ''stream'', ''options'', ''temperature'', ''num_predict'']"
    by (simp add: completion_ollama_payload_def leaf_b leaf_i leaf_f)
  show ?thesis
    by (simp add: chat_keys compl_keys) (simp add: chat_ollama_payload_def completion_ollama_payload_def)
qed

theorem request_translator_fields_witness:
  "ChatCompletionRequest.max_tokens (chat_request True) = Some 1000
   \<and> json_at (chat_ollama_payload (chat_request True)) [''options'', ''num_predict'']
       = Some (JInt 1000)
   \<and> ChatCompletionRequest.temperature (chat_request True) = Some (Finite (7 / 10))
   \<and> json_at (chat_ollama_payload (chat_request True)) [''options'', ''temperature'']
       = Some (JFloat (Finite (7 / 10)))
   \<and> top_p (chat_request True) = Some (Finite 1)
   \<and> json_at (chat_ollama_payload (chat_request True)) [''options'', ''top_p'']
       = Some (JFloat (Finite 1))
   \<and> ''frequency_penalty'' \<notin> set (all_keys (chat_ollama_payload (chat_request True)))
   \<and> CompletionRequest.temperature (completion_request True) = Some (Finite (7 / 10))
   \<and> json_at (completion_ollama_payload (completion_request True)) [''options'', ''temperature'']
       = Some (JFloat (Finite (7 / 10)))
   \<and> CompletionRequest.max_tokens (completion_request True) = Some 1000
   \<and> json_at (completion_ollama_payload (completion_request True)) [''options'', ''num_predict'']
       = Some (JInt 1000)
   \<and> json_at (completion_ollama_payload (completion_request True)) [''prompt''] = Some (JStr ''Hi'')
   \<and> ''top_p'' \<notin> set (all_keys (completion_ollama_payload (completion_request True)))
   \<and> ChatCompletionRequest.max_tokens (null_chat_request) = None
   \<and> json_at (chat_ollama_payload null_chat_request) [''options'', ''num_predict''] = Some JNull
   \<and> ChatCompletionRequest.temperature null_chat_request = None
   \<and> json_at (chat_ollama_payload null_chat_request) [''options'', ''temperature''] = Some JNull
   \<and> top_p null_chat_request = None
   \<and> json_at (chat_ollama_payload null_chat_request) [''options'', ''top_p''] = Some JNull
   \<and> CompletionRequest.temperature null_completion_request = None
   \<and> json_at (completion_ollama_payload null_completion_request) [''options'', ''temperature'']
       = Some JNull
   \<and> CompletionRequest.max_tokens null_completion_request = None
   \<and> json_at (completion_ollama_payload null_completion_request) [''options'', ''num_predict'']
       = Some JNull"
proof -
  have given:
    "ChatCompletionRequest.max_tokens (chat_request True) = Some 1000"
    "ChatCompletionRequest.temperature (chat_request True) = Some (Finite (7 / 10))"
    "top_p (chat_request True) = Some (Finite 1)"
    "CompletionRequest.temperature (completion_request True) = Some (Finite (7 / 10))"
    "CompletionRequest.max_tokens (completion_request True) = Some 1000"
    "prompt (completion_request True) = ''Hi''"
    by (simp_all add: chat_request_def completion_request_def new_ChatCompletionRequest_def
        new_CompletionRequest_def)
  have absent:
    "ChatCompletionRequest.max_tokens null_chat_request = None"
    "ChatCompletionRequest.temperature null_chat_request = None"
    "top_p null_chat_request = None"
    "CompletionRequest.temperature null_completion_request = None"
    "CompletionRequest.max_tokens null_completion_request = None"
    by (simp_all add: null_chat_request_def null_completion_request_def
        new_ChatCompletionRequest_def new_CompletionRequest_def)
  show ?thesis
    using
      request_translator_fields [where creq = "chat_request True" and n = 1000
        and t = "Finite (7 / 10)" and tp = "Finite 1" and preq = "completion_request True"
        and t' = "Finite (7 / 10)" and n' = 1000]
      request_translator_fields [where creq = null_chat_request
        and preq = null_completion_request and n = 0 and n' = 0 and t = NaN and t' = NaN
        and tp = NaN]
      given absent
    by simp
qed

text \<open>
  C10.  When the request body omits an optional field, the stored value is the declared
  default: \<open>stream\<close> false, \<open>temperature\<close> 0.7 and \<open>max_tokens\<close> 1000 for both request
  kinds, and \<open>top_p\<close> 1.0, \<open>frequency_penalty\<close> 0.0 and \<open>presence_penalty\<close> 0.0 for a chat
  request.  The payload sent upstream carries these defaults in the members it has:
  \<open>stream\<close>, \<open>options.temperature\<close>, \<open>options.num_predict\<close> and, for a chat request,
  \<open>options.top_p\<close>.
\<close>

theorem omitted_fields_take_defaults:
  "ChatCompletionRequest.stream (new_ChatCompletionRequest m ms Omitted t mt tp fp pp) = Some False
   \<and> ChatCompletionRequest.temperature (new_ChatCompletionRequest m ms s Omitted mt tp fp pp)
       = Some (Finite (7 / 10))
   \<and> ChatCompletionRequest.max_tokens (new_ChatCompletionRequest m ms s t Omitted tp fp pp) = Some 1000
   \<and> top_p (new_ChatCompletionRequest m ms s t mt Omitted fp pp) = Some (Finite 1)
   \<and> frequency_penalty (new_ChatCompletionRequest m ms s t mt tp Omitted pp) = Some (Finite 0)
   \<and> presence_penalty (new_ChatCompletionRequest m ms s t mt tp fp Omitted) = Some (Finite 0)
   \<and> CompletionRequest.stream (new_CompletionRequest m p Omitted t mt) = Some False
   \<and> CompletionRequest.temperature (new_CompletionRequest m p s Omitted mt) = Some (Finite (7 / 10))
   \<and> CompletionRequest.max_tokens (new_CompletionRequest m p s t Omitted) = Some 1000
   \<and> json_at (chat_ollama_payload (new_ChatCompletionRequest m ms Omitted t mt tp fp pp)) [''stream'']
       = Some (JBool False)
   \<and> json_at (chat_ollama_payload (new_ChatCompletionRequest m ms s Omitted mt tp fp pp))
         [''options'', ''temperature''] = Some (JFloat (Finite (7 / 10)))
   \<and> json_at (chat_ollama_payload (new_ChatCompletionRequest m ms s t Omitted tp fp pp))
         [''options'', ''num_predict''] = Some (JInt 1000)
   \<and> json_at (chat_ollama_payload (new_ChatCompletionRequest m ms s t mt Omitted fp pp))
         [''options'', ''top_p''] = Some (JFloat (Finite 1))
   \<and> json_at (completion_ollama_payload (new_CompletionRequest m p Omitted t mt)) [''stream'']
       = Some (JBool False)
   \<and> json_at (completion_ollama_payload (new_CompletionRequest m p s Omitted mt))
         [''options'', ''temperature''] = Some (JFloat (Finite (7 / 10)))
   \<and> json_at (completion_ollama_payload (new_CompletionRequest m p s t Omitted))
         [''options'', ''num_predict''] = Some (JInt 1000)"
  by (simp add: new_ChatCompletionRequest_def new_CompletionRequest_def
      chat_ollama_payload_def completion_ollama_payload_def)

theorem omitted_fields_take_defaults_witness:
  "new_ChatCompletionRequest ''llama3'' [] Omitted Omitted Omitted Omitted Omitted Omitted
     = \<lparr> ChatCompletionRequest.model = ''llama3'', messages = [], stream = Some False,
         temperature = Some (Finite (7 / 10)), max_tokens = Some 1000, top_p = Some (Finite 1),
         frequency_penalty = Some (Finite 0), presence_penalty = Some (Finite 0) \<rparr>
   \<and> json_at (completion_ollama_payload (new_CompletionRequest ''llama3'' ''Hi'' Omitted Omitted Omitted))
        [''options'', ''num_predict''] = Some (JInt 1000)"
  using omitted_fields_take_defaults
    [where m = "''llama3''" and ms = "[]" and p = "''Hi''" and s = Omitted and t = Omitted
       and mt = Omitted and tp = Omitted and fp = Omitted and pp = Omitted]
  by (simp add: new_ChatCompletionRequest_def)

section \<open>Facts about the concrete traffic\<close>

lemmas example_lines =
  line_Hel_def line_lo_def line_done_def body_Hello_def line_42_def line_garbage_def

lemma loads_Hel: "loads example_runtime line_Hel = Inr (JObj [(''response'', JStr ''Hel'')])"
  by (simp add: example_runtime_def example_loads_def example_lines)

lemma loads_lo: "loads example_runtime line_lo = Inr (JObj [(''response'', JStr ''lo'')])"
  by (simp add: example_runtime_def example_loads_def example_lines)

lemma loads_done: "loads example_runtime line_done
   = Inr (JObj [(''done'', JBool True), (''prompt_eval_count'', JInt 5), (''eval_count'', JInt 2)])"
  by (simp add: example_runtime_def example_loads_def example_lines)

lemma loads_42: "loads example_runtime line_42 = Inr (JInt 42)"
  by (simp add: example_runtime_def example_loads_def example_lines)

lemma loads_garbage: "loads example_runtime line_garbage
   = Inl (JSONDecodeError ''Expecting value: line 1 column 1 (char 0)'')"
  by (simp add: example_runtime_def example_loads_def example_lines)

lemma lines_nonempty:
  "line_Hel \<noteq> []" "line_lo \<noteq> []" "line_done \<noteq> []" "line_42 \<noteq> []"
  "line_garbage \<noteq> []"
  by (simp_all add: example_lines)

lemmas example_loads_simps = loads_Hel loads_lo loads_done loads_42 loads_garbage lines_nonempty

lemma example_requests:
  "ChatCompletionRequest.model (chat_request s) = ''llama3''"
  "ChatCompletionRequest.stream (chat_request s) = Some s"
  "CompletionRequest.model (completion_request s) = ''llama3''"
  "CompletionRequest.stream (completion_request s) = Some s"
  by (simp_all add: chat_request_def completion_request_def new_ChatCompletionRequest_def
      new_CompletionRequest_def)

lemma example_loads_body:
  "loads example_runtime body_Hello
   = Inr (JObj [(''response'', JStr ''Hello''), (''prompt_eval_count'', JInt 5),
                (''eval_count'', JInt 2)])"
  by (simp add: example_runtime_def example_loads_def example_lines)

section \<open>The non-streaming responses\<close>

lemma get_count:
  "is_count kvs key \<Longrightarrow> dict_get kvs key (JInt 0) = JInt (count_or_0 kvs key)"
  by (auto simp: is_count_def dict_get_def count_or_0_def split: option.splits json.splits)

lemma add_counts: "py_add rt (JInt a) (JInt b) = Inr (JInt (a + b))"
  by (simp add: py_add_def)

text \<open>
  C9.  When the upstream answers a non-streaming call with status 200 and a JSON object in
  which each of \<open>prompt_eval_count\<close> and \<open>eval_count\<close> is absent or a non-negative integer,
  both endpoints answer with a body whose \<open>usage\<close> has \<open>prompt_tokens\<close> equal to
  \<open>prompt_eval_count\<close> or 0, \<open>completion_tokens\<close> equal to \<open>eval_count\<close> or 0, and
  \<open>total_tokens\<close> equal to their sum.
\<close>

theorem usage_accounting:
  assumes "loads rt (body_text ls) = Inr (JObj kvs)"
    and "is_count kvs ''prompt_eval_count''" and "is_count kvs ''eval_count''"
    and "\<not> streaming (ChatCompletionRequest.stream creq)"
    and "\<not> streaming (CompletionRequest.stream preq)"
  shows "(\<exists>body. chat_completions rt creq (Responded 200 ls None) = Inr (JSONResponse body)
           \<and> json_at body [''usage''] =
               Some (JObj [(''prompt_tokens'', JInt (count_or_0 kvs ''prompt_eval_count'')),
                           (''completion_tokens'', JInt (count_or_0 kvs ''eval_count'')),
                           (''total_tokens'', JInt (count_or_0 kvs ''prompt_eval_count''
                                                   + count_or_0 kvs ''eval_count''))]))
       \<and> (\<exists>body. completions rt preq (Responded 200 ls None) = Inr (JSONResponse body)
           \<and> json_at body [''usage''] =
               Some (JObj [(''prompt_tokens'', JInt (count_or_0 kvs ''prompt_eval_count'')),
                           (''completion_tokens'', JInt (count_or_0 kvs ''eval_count'')),
                           (''total_tokens'', JInt (count_or_0 kvs ''prompt_eval_count''
                                                   + count_or_0 kvs ''eval_count''))]))"
  using assms
  by (simp add: chat_completions_def chat_completions_try_def completions_def completions_try_def
      and_then_def get_count add_counts create_chat_completion_response_def)

theorem usage_accounting_witness:
  "loads example_runtime (body_text [body_Hello])
     = Inr (JObj [(''response'', JStr ''Hello''), (''prompt_eval_count'', JInt 5), (''eval_count'', JInt 2)])
   \<and> is_count [(''response'', JStr ''Hello''), (''prompt_eval_count'', JInt 5), (''eval_count'', JInt 2)]
        ''prompt_eval_count''
   \<and> is_count [(''response'', JStr ''Hello''), (''prompt_eval_count'', JInt 5), (''eval_count'', JInt 2)]
        ''eval_count''
   \<and> \<not> streaming (ChatCompletionRequest.stream (chat_request False))
   \<and> \<not> streaming (CompletionRequest.stream (completion_request False))
   \<and> (\<exists>body. chat_completions example_runtime (chat_request False) (Responded 200 [body_Hello] None)
                = Inr (JSONResponse body)
        \<and> json_at body [''usage''] =
            Some (JObj [(''prompt_tokens'', JInt 5), (''completion_tokens'', JInt 2),
                        (''total_tokens'', JInt 7)]))
   \<and> (\<exists>body. completions example_runtime (completion_request False) (Responded 200 [body_Hello] None)
                = Inr (JSONResponse body)
        \<and> json_at body [''usage''] =
            Some (JObj [(''prompt_tokens'', JInt 5), (''completion_tokens'', JInt 2),
                        (''total_tokens'', JInt 7)]))"
proof -
  have l: "loads example_runtime (body_text [body_Hello])
     = Inr (JObj [(''response'', JStr ''Hello''), (''prompt_eval_count'', JInt 5), (''eval_count'', JInt 2)])"
    by (simp add: example_loads_body)
  have p: "is_count [(''response'', JStr ''Hello''), (''prompt_eval_count'', JInt 5), (''eval_count'', JInt 2)]
        ''prompt_eval_count''"
    by (simp add: is_count_def)
  have e: "is_count [(''response'', JStr ''Hello''), (''prompt_eval_count'', JInt 5), (''eval_count'', JInt 2)]
        ''eval_count''"
    by (simp add: is_count_def)
  have c: "\<not> streaming (ChatCompletionRequest.stream (chat_request False))"
    by (simp add: chat_request_def new_ChatCompletionRequest_def)
  have q: "\<not> streaming (CompletionRequest.stream (completion_request False))"
    by (simp add: completion_request_def new_CompletionRequest_def)
  show ?thesis
    using usage_accounting [OF l p e c q] l p e c q
    by (simp add: count_or_0_def)
qed

lemma rejected_status_becomes_500:
  assumes "\<not> streaming (ChatCompletionRequest.stream creq)" "status \<noteq> 200"
  shows "chat_completions rt creq (Responded status ls None)
         = Inl (HTTPException 500 (str_HTTPException rt status ''Failed to generate response''))"
  using assms by (simp add: chat_completions_def chat_completions_try_def)

text \<open>
  C3.  The claim says that a non-success upstream status reaches the client unchanged.  The
  handlers raise \<open>HTTPException\<close> with the upstream status inside their own
  \<^verbatim>\<open>try\<close>, whose \<^verbatim>\<open>except Exception\<close> catches it and raises status 500 instead: for an
  upstream 404 the client of either non-streaming endpoint sees 500, with the text of the
  caught exception as detail.
\<close>

theorem upstream_status_replaced_by_500:
  "chat_completions rt (chat_request False) (Responded 404 [''model not found''] None)
     = Inl (HTTPException 500 (str_HTTPException rt 404 ''Failed to generate response''))
   \<and> status_code (chat_completions rt (chat_request False) (Responded 404 [''model not found''] None)) = 500
   \<and> completions rt (completion_request False) (Responded 404 [''model not found''] None)
     = Inl (HTTPException 500 (str_HTTPException rt 404 ''Failed to generate response''))
   \<and> status_code (completions rt (completion_request False) (Responded 404 [''model not found''] None)) = 500"
  by (simp add: chat_completions_def chat_completions_try_def completions_def completions_try_def
      chat_request_def completion_request_def new_ChatCompletionRequest_def new_CompletionRequest_def)

text \<open>
  C4.  The claim says that a refused connection gives 503 on a non-streaming endpoint and
  one error chunk on a streaming endpoint.  Only \<^verbatim>\<open>list_models\<close> has the handler for
  \<^verbatim>\<open>httpx.RequestError\<close> that answers 503.  In \<^verbatim>\<open>chat_completions\<close> and \<^verbatim>\<open>completions\<close>
  the catch-all handler answers 500 with the exception text, and the streaming generator
  of \<^verbatim>\<open>completions\<close> has no handler, so the exception escapes it and no chunk is sent.
  The streaming generator of \<^verbatim>\<open>chat_completions\<close> does emit the one error chunk.
\<close>

theorem refused_connection_answers_500:
  "chat_completions rt (chat_request False) (Refused (RequestError ''All connection attempts failed''))
     = Inl (HTTPException 500 ''All connection attempts failed'')
   \<and> status_code (chat_completions rt (chat_request False)
        (Refused (RequestError ''All connection attempts failed''))) = 500
   \<and> completions rt (completion_request False)
        (Refused (RequestError ''All connection attempts failed''))
     = Inl (HTTPException 500 ''All connection attempts failed'')
   \<and> status_code (completions rt (completion_request False)
        (Refused (RequestError ''All connection attempts failed''))) = 500
   \<and> completions rt (completion_request True)
        (Refused (RequestError ''All connection attempts failed''))
     = Inr (StreamingResponse [] (Some (RequestError ''All connection attempts failed'')))
   \<and> list_models rt (Refused (RequestError ''All connection attempts failed''))
     = Inl (HTTPException 503 ''Ollama service unavailable: All connection attempts failed'')
   \<and> chat_completions rt (chat_request True)
        (Refused (RequestError ''All connection attempts failed''))
     = Inr (StreamingResponse
              [create_stream_chunk rt 0 (JStr ''Error: All connection attempts failed'') ''llama3''
                 (Some ''error'')] None)"
  by (simp add: list_models_def list_models_try_def chat_completions_def chat_completions_try_def
      completions_def completions_try_def chat_generate_stream_def completion_generate_stream_def
      chat_request_def completion_request_def new_ChatCompletionRequest_def
      new_CompletionRequest_def)

section \<open>The stream translator\<close>

text \<open>The loop over an appended list of lines.\<close>

lemma aiter_lines_append:
  "aiter_lines body k (xs @ ys) fault =
     (case aiter_lines body k xs None of
        (out, Continue) \<Rightarrow>
          (case aiter_lines body (k + length (filter is_chunk out)) ys fault of
             (later, c) \<Rightarrow> (out @ later, c))
      | (out, c) \<Rightarrow> (out, c))"
proof (induction xs arbitrary: k)
  case Nil
  then show ?case by (simp split: prod.splits)
next
  case (Cons x xs)
  show ?case
    by (simp add: Cons.IH add.assoc split: prod.splits control.splits)
qed

lemma get_truthy_getitem:
  "truthy (dict_get kvs key JNull) \<Longrightarrow> py_getitem (JObj kvs) key = Inr (dict_get kvs key JNull)"
  by (auto simp: dict_get_def split: option.splits)

text \<open>The loop body on each kind of line.\<close>

lemma chat_line_skipped: "skipped rt line \<Longrightarrow> chat_line rt mdl k line = ([], Continue)"
  by (auto simp: skipped_def chat_line_def split: sum.splits)

lemma completion_line_skipped: "skipped rt line \<Longrightarrow> completion_line rt mdl k line = ([], Continue)"
  by (auto simp: skipped_def completion_line_def split: sum.splits)

lemma chat_line_event:
  assumes "line \<noteq> []" "loads rt line = Inr (JObj kvs)"
  shows "chat_line rt mdl k line =
     (if truthy (dict_get kvs ''done'' JNull)
      then (chat_text rt mdl k kvs @
              [create_stream_chunk rt (k + length (chat_text rt mdl k kvs)) (JStr []) mdl (Some ''stop''),
               DONE_line], Return)
      else (chat_text rt mdl k kvs, Continue))"
  using assms
  by (simp add: chat_line_def chat_text_def get_truthy_getitem and_then_def del: py_getitem.simps)

lemma chat_line_unreadable:
  assumes "\<not> readable rt line"
  shows "\<exists>e. chat_line rt mdl k line = ([], Raise e)"
proof -
  from assms have ne: "line \<noteq> []" by (auto simp: readable_def skipped_def)
  show ?thesis
  proof (cases "loads rt line")
    case (Inl e)
    with assms ne show ?thesis by (auto simp: readable_def skipped_def chat_line_def)
  next
    case (Inr v)
    with assms ne show ?thesis
      by (cases v) (auto simp: readable_def is_event_def chat_line_def)
  qed
qed

lemma completion_line_event:
  assumes "line \<noteq> []" "loads rt line = Inr (JObj kvs)"
  shows "completion_line rt mdl k line =
     (if truthy (dict_get kvs ''done'' JNull)
      then (completion_text rt mdl k kvs @ [DONE_line], Return)
      else (completion_text rt mdl k kvs, Continue))"
  using assms
  by (simp add: completion_line_def completion_text_def get_truthy_getitem and_then_def del: py_getitem.simps)

lemma completion_line_unreadable:
  assumes "\<not> readable rt line"
  shows "\<exists>e. completion_line rt mdl k line = ([], Raise e)"
proof -
  from assms have ne: "line \<noteq> []" by (auto simp: readable_def skipped_def)
  show ?thesis
  proof (cases "loads rt line")
    case (Inl e)
    with assms ne show ?thesis by (auto simp: readable_def skipped_def completion_line_def)
  next
    case (Inr v)
    with assms ne show ?thesis
      by (cases v) (auto simp: readable_def is_event_def completion_line_def)
  qed
qed

text \<open>Which frames are terminal.\<close>

lemma finished_chunk [simp]:
  "is_finished (create_stream_chunk rt k text mdl fin) = (fin \<noteq> None)"
  by (auto simp: is_finished_def create_stream_chunk_def split: option.splits)

lemma terminal_chunk [simp]:
  "is_terminal (create_stream_chunk rt k text mdl fin) = (fin \<noteq> None)"
  by (auto simp: is_terminal_def is_finished_def create_stream_chunk_def DONE_line_def
      split: option.splits)

lemma error_chunk [simp]:
  "is_error_chunk (create_stream_chunk rt k text mdl fin) = (fin = Some ''error'')"
  by (auto simp: is_error_chunk_def create_stream_chunk_def split: option.splits)

lemma stop_is_finished: "is_stop_chunk f \<Longrightarrow> is_finished f"
  by (simp add: is_stop_chunk_def is_finished_def)

lemma DONE_not_finished [simp]: "\<not> is_finished DONE_line"
  by (simp add: is_finished_def DONE_line_def)

lemma text_chunk_not_finished [simp]: "\<not> is_finished (text_completion_chunk rt k text mdl)"
  by (simp add: is_finished_def text_completion_chunk_def)

lemma stop_chunk [simp]:
  "is_stop_chunk (create_stream_chunk rt k text mdl fin) = (fin = Some ''stop'')"
  by (auto simp: is_stop_chunk_def create_stream_chunk_def split: option.splits)

lemma chunk_not_DONE [simp]: "create_stream_chunk rt k text mdl fin \<noteq> DONE_line"
  by (simp add: create_stream_chunk_def DONE_line_def)

lemma text_chunk_not_terminal [simp]: "\<not> is_terminal (text_completion_chunk rt k text mdl)"
  by (simp add: is_terminal_def is_finished_def text_completion_chunk_def DONE_line_def)

lemma is_chunk_simps [simp]:
  "is_chunk (create_stream_chunk rt k text mdl fin)"
  "is_chunk (text_completion_chunk rt k text mdl)"
  "\<not> is_chunk DONE_line"
  by (simp_all add: create_stream_chunk_def text_completion_chunk_def DONE_line_def)

lemma text_chunk_not_stop [simp]: "\<not> is_stop_chunk (text_completion_chunk rt k text mdl)"
  by (simp add: is_stop_chunk_def text_completion_chunk_def)

lemma DONE_not_stop [simp]: "\<not> is_stop_chunk DONE_line"
  by (simp add: is_stop_chunk_def DONE_line_def)

lemma chat_text_plain [simp]: "list_all (\<lambda>f. \<not> is_terminal f) (chat_text rt mdl k kvs)"
  by (simp add: chat_text_def)

lemma completion_text_plain [simp]: "list_all (\<lambda>f. \<not> is_terminal f) (completion_text rt mdl k kvs)"
  by (simp add: completion_text_def)

lemma ends_stop_DONE_prepend:
  "list_all (\<lambda>f. \<not> is_terminal f) a \<Longrightarrow> ends_stop_DONE b \<Longrightarrow> ends_stop_DONE (a @ b)"
  by (auto simp: ends_stop_DONE_def list_all_iff split: list.splits)

lemma ends_DONE_only_prepend:
  "list_all (\<lambda>f. \<not> is_terminal f) a \<Longrightarrow> ends_DONE_only b \<Longrightarrow> ends_DONE_only (a @ b)"
  by (auto simp: ends_DONE_only_def list_all_iff split: list.splits)

lemma ends_stop_DONE_last:
  "list_all (\<lambda>f. \<not> is_terminal f) a \<Longrightarrow>
   ends_stop_DONE (a @ [create_stream_chunk rt k text mdl (Some ''stop''), DONE_line])"
  by (simp add: ends_stop_DONE_def list_all_iff)

lemma ends_DONE_only_last:
  "list_all (\<lambda>f. \<not> is_terminal f) a \<Longrightarrow> ends_DONE_only (a @ [DONE_line])"
  by (simp add: ends_DONE_only_def list_all_iff)

lemma reads_done_cases:
  obtains (skip) "skipped rt line"
  | (stop) "\<not> skipped rt line" "is_done_event rt line"
  | (event) "\<not> skipped rt line" "\<not> is_done_event rt line" "is_event rt line"
  | (bad) "\<not> readable rt line"
  by (auto simp: readable_def)

lemma is_event_obj: "is_event rt line \<Longrightarrow> \<exists>kvs. line \<noteq> [] \<and> loads rt line = Inr (JObj kvs)"
  by (auto simp: is_event_def split: sum.splits json.splits)

lemma is_done_event_obj:
  "is_done_event rt line \<Longrightarrow>
   \<exists>kvs. line \<noteq> [] \<and> loads rt line = Inr (JObj kvs) \<and> truthy (dict_get kvs ''done'' JNull)"
  by (auto simp: is_done_event_def split: sum.splits json.splits)

lemma not_done_event:
  "\<not> is_done_event rt line \<Longrightarrow> line \<noteq> [] \<Longrightarrow> loads rt line = Inr (JObj kvs) \<Longrightarrow>
   \<not> truthy (dict_get kvs ''done'' JNull)"
  by (auto simp: is_done_event_def)

lemma done_event_is_event: "is_done_event rt line \<Longrightarrow> is_event rt line"
  by (auto simp: is_done_event_def is_event_def split: sum.splits json.splits)

lemma chat_lines_outcome:
  "aiter_lines (chat_line rt mdl) k ls fault = (out, c) \<Longrightarrow>
     (if reads_done rt ls then c = Return \<and> ends_stop_DONE out
      else c \<noteq> Return \<and> list_all (\<lambda>f. \<not> is_terminal f) out)"
proof (induction ls arbitrary: k out c)
  case Nil
  then show ?case by (auto split: option.splits)
next
  case (Cons line rest)
  show ?case
  proof (cases rule: reads_done_cases [of rt line])
    case skip
    with Cons.prems have "aiter_lines (chat_line rt mdl) k rest fault = (out, c)"
      by (simp add: chat_line_skipped split: prod.splits)
    from Cons.IH [OF this] skip show ?thesis by simp
  next
    case stop
    from is_done_event_obj [OF stop(2)] obtain kvs where
      kv: "line \<noteq> []" "loads rt line = Inr (JObj kvs)" "truthy (dict_get kvs ''done'' JNull)"
      by blast
    with Cons.prems stop show ?thesis
      by (auto simp: chat_line_event ends_stop_DONE_last)
  next
    case event
    from is_event_obj [OF event(3)] obtain kvs where
      kv: "line \<noteq> []" "loads rt line = Inr (JObj kvs)" by blast
    from not_done_event [OF event(2) kv] have nd: "\<not> truthy (dict_get kvs ''done'' JNull)" .
    obtain later c' where r: "aiter_lines (chat_line rt mdl)
        (k + length (filter is_chunk (chat_text rt mdl k kvs))) rest fault = (later, c')"
      by (cases "aiter_lines (chat_line rt mdl)
        (k + length (filter is_chunk (chat_text rt mdl k kvs))) rest fault") auto
    with Cons.prems kv nd have oc: "out = chat_text rt mdl k kvs @ later" "c = c'"
      by (simp_all add: chat_line_event)
    from Cons.IH [OF r] event oc show ?thesis
      by (auto simp: ends_stop_DONE_prepend)
  next
    case bad
    from chat_line_unreadable [OF bad] obtain e where "chat_line rt mdl k line = ([], Raise e)"
      by blast
    with Cons.prems bad show ?thesis
      by (auto simp: readable_def done_event_is_event)
  qed
qed

lemma completion_lines_outcome:
  "aiter_lines (completion_line rt mdl) k ls fault = (out, c) \<Longrightarrow>
     (if reads_done rt ls then c = Return \<and> ends_DONE_only out
      else c \<noteq> Return \<and> list_all (\<lambda>f. \<not> is_terminal f) out)"
proof (induction ls arbitrary: k out c)
  case Nil
  then show ?case by (auto split: option.splits)
next
  case (Cons line rest)
  show ?case
  proof (cases rule: reads_done_cases [of rt line])
    case skip
    with Cons.prems have "aiter_lines (completion_line rt mdl) k rest fault = (out, c)"
      by (simp add: completion_line_skipped split: prod.splits)
    from Cons.IH [OF this] skip show ?thesis by simp
  next
    case stop
    from is_done_event_obj [OF stop(2)] obtain kvs where
      kv: "line \<noteq> []" "loads rt line = Inr (JObj kvs)" "truthy (dict_get kvs ''done'' JNull)"
      by blast
    with Cons.prems stop show ?thesis
      by (auto simp: completion_line_event ends_DONE_only_last)
  next
    case event
    from is_event_obj [OF event(3)] obtain kvs where
      kv: "line \<noteq> []" "loads rt line = Inr (JObj kvs)" by blast
    from not_done_event [OF event(2) kv] have nd: "\<not> truthy (dict_get kvs ''done'' JNull)" .
    obtain later c' where r: "aiter_lines (completion_line rt mdl)
        (k + length (filter is_chunk (completion_text rt mdl k kvs))) rest fault = (later, c')"
      by (cases "aiter_lines (completion_line rt mdl)
        (k + length (filter is_chunk (completion_text rt mdl k kvs))) rest fault") auto
    with Cons.prems kv nd have oc: "out = completion_text rt mdl k kvs @ later" "c = c'"
      by (simp_all add: completion_line_event)
    from Cons.IH [OF r] event oc show ?thesis
      by (auto simp: ends_DONE_only_prepend)
  next
    case bad
    from completion_line_unreadable [OF bad] obtain e where
      "completion_line rt mdl k line = ([], Raise e)"
      by blast
    with Cons.prems bad show ?thesis
      by (auto simp: readable_def done_event_is_event)
  qed
qed



text \<open>Counting the terminal frames.\<close>

lemma plain_counts:
  "list_all (\<lambda>f. \<not> is_terminal f) out \<Longrightarrow>
   DONE_count out = 0 \<and> stop_count out = 0 \<and> finished_count out = 0"
  by (induction out)
    (auto simp: DONE_count_def stop_count_def finished_count_def is_terminal_def stop_is_finished)


lemma ends_DONE_only_counts:
  assumes "ends_DONE_only out"
  shows "DONE_count out = 1 \<and> stop_count out = 0 \<and> finished_count out = 0"
proof -
  from assms obtain d earlier where r: "rev out = d # earlier"
    and d: "d = DONE_line"
    and e: "list_all (\<lambda>f. \<not> is_terminal f) earlier"
    by (auto simp: ends_DONE_only_def split: list.splits)
  from r have "rev (rev out) = rev (d # earlier)" by simp
  then have o: "out = rev earlier @ [d]" by simp
  from e have "list_all (\<lambda>f. \<not> is_terminal f) (rev earlier)" by (simp add: list_all_iff)
  from plain_counts [OF this] d show ?thesis
    by (simp add: o DONE_count_def stop_count_def finished_count_def)
qed

lemma done_event_not_skipped: "is_done_event rt line \<Longrightarrow> \<not> skipped rt line"
  by (auto simp: is_done_event_def skipped_def split: sum.splits)

lemma reads_done_append:
  "list_all (readable rt) pre \<Longrightarrow> is_done_event rt line \<Longrightarrow> reads_done rt (pre @ line # rest)"
  by (induction pre) (auto simp: readable_def done_event_not_skipped)

lemma aiter_lines_returned:
  assumes "aiter_lines body k xs None = (out, Return)"
  shows "aiter_lines body k (xs @ ys) fault = (out, Return)"
  using assms by (simp add: aiter_lines_append)

text \<open>Skipped lines leave no trace in the output of either path.\<close>

lemma skipped_lines_ignored:
  assumes "\<And>k line. skipped rt line \<Longrightarrow> body k line = ([], Continue)"
  shows "aiter_lines body k (filter (\<lambda>line. \<not> skipped rt line) ls) fault
         = aiter_lines body k ls fault"
  by (induction ls arbitrary: k) (simp_all add: assms)

lemma chat_stream_skips:
  "chat_generate_stream rt creq (Responded 200 (filter (\<lambda>line. \<not> skipped rt line) ls) fault)
   = chat_generate_stream rt creq (Responded 200 ls fault)"
  by (simp add: chat_generate_stream_def skipped_lines_ignored chat_line_skipped)

lemma completion_stream_skips:
  "completion_generate_stream rt preq (Responded status (filter (\<lambda>line. \<not> skipped rt line) ls) fault)
   = completion_generate_stream rt preq (Responded status ls fault)"
  by (simp add: completion_generate_stream_def skipped_lines_ignored completion_line_skipped)

lemma chat_scenario:
  "chat_generate_stream example_runtime (chat_request True)
      (Responded 200 [line_Hel, line_lo, line_done] None)
   = ([create_stream_chunk example_runtime 0 (JStr ''Hel'') ''llama3'' None,
       create_stream_chunk example_runtime 1 (JStr ''lo'') ''llama3'' None,
       create_stream_chunk example_runtime 2 (JStr []) ''llama3'' (Some ''stop''),
       DONE_line], None)"
  by (simp add: chat_generate_stream_def chat_line_def example_loads_simps example_requests
      and_then_def dict_get_def numeral_2_eq_2)

lemma completion_scenario:
  "completion_generate_stream example_runtime (completion_request True)
      (Responded 200 [line_Hel, line_lo, line_done] None)
   = ([text_completion_chunk example_runtime 0 (JStr ''Hel'') ''llama3'',
       text_completion_chunk example_runtime 1 (JStr ''lo'') ''llama3'',
       DONE_line], None)"
  by (simp add: completion_generate_stream_def completion_line_def example_loads_simps example_requests
      and_then_def dict_get_def)

text \<open>
  Once a done event is reached, after blank lines, lines on which \<^verbatim>\<open>json.loads\<close> raises
  \<^verbatim>\<open>JSONDecodeError\<close> and events only, the chat path ends its output with the stop chunk
  and the \<open>[DONE]\<close> line, the completions path with the \<open>[DONE]\<close> line alone, and what
  follows the done event is not read.
\<close>

lemma done_event_reached:
  assumes "list_all (readable rt) pre" and "is_done_event rt line"
  shows "ends_stop_DONE (fst (chat_generate_stream rt creq (Responded 200 (pre @ line # rest) fault)))
   \<and> snd (chat_generate_stream rt creq (Responded 200 (pre @ line # rest) fault)) = None
   \<and> chat_generate_stream rt creq (Responded 200 (pre @ line # rest) fault)
       = chat_generate_stream rt creq (Responded 200 (pre @ [line]) None)
   \<and> ends_DONE_only (fst (completion_generate_stream rt preq (Responded status (pre @ line # rest) fault)))
   \<and> stop_count (fst (completion_generate_stream rt preq (Responded status (pre @ line # rest) fault))) = 0
   \<and> snd (completion_generate_stream rt preq (Responded status (pre @ line # rest) fault)) = None
   \<and> completion_generate_stream rt preq (Responded status (pre @ line # rest) fault)
       = completion_generate_stream rt preq (Responded status (pre @ [line]) None)"
proof -
  from reads_done_append [OF assms] have rd: "reads_done rt (pre @ [line])" .
  obtain out c where a: "aiter_lines (chat_line rt (ChatCompletionRequest.model creq)) 0 (pre @ [line]) None = (out, c)"
    by (cases "aiter_lines (chat_line rt (ChatCompletionRequest.model creq)) 0 (pre @ [line]) None") auto
  from chat_lines_outcome [OF a] rd have c: "c = Return" and e: "ends_stop_DONE out" by simp_all
  from aiter_lines_returned [OF a [unfolded c], of rest fault]
  have b: "aiter_lines (chat_line rt (ChatCompletionRequest.model creq)) 0 (pre @ line # rest) fault = (out, Return)"
    by simp
  obtain out' c' where a': "aiter_lines (completion_line rt (CompletionRequest.model preq)) 0 (pre @ [line]) None = (out', c')"
    by (cases "aiter_lines (completion_line rt (CompletionRequest.model preq)) 0 (pre @ [line]) None") auto
  from completion_lines_outcome [OF a'] rd have c': "c' = Return" and e': "ends_DONE_only out'" by simp_all
  from aiter_lines_returned [OF a' [unfolded c'], of rest fault]
  have b': "aiter_lines (completion_line rt (CompletionRequest.model preq)) 0 (pre @ line # rest) fault = (out', Return)"
    by simp
  from ends_DONE_only_counts [OF e'] have s': "stop_count out' = 0" by simp
  show ?thesis
    using a b e a' b' e' s' c c'
    by (simp add: chat_generate_stream_def completion_generate_stream_def)
qed


text \<open>
  C1.  The claim says that both streaming paths end their output with one chunk whose
  \<open>finish_reason\<close> is \<open>stop\<close>, followed by the \<open>[DONE]\<close> line.  On the three lines of the
  specification's scenario, which end in a done event, the completions path emits the two
  text chunks and then the \<open>[DONE]\<close> line: no stop chunk.  The chat path, on the same
  lines, ends with the stop chunk and the \<open>[DONE]\<close> line.
\<close>

theorem completion_stream_lacks_stop_chunk:
  "is_done_event example_runtime line_done
   \<and> fst (completion_generate_stream example_runtime (completion_request True)
          (Responded 200 [line_Hel, line_lo, line_done] None))
       = [text_completion_chunk example_runtime 0 (JStr ''Hel'') ''llama3'',
          text_completion_chunk example_runtime 1 (JStr ''lo'') ''llama3'',
          DONE_line]
   \<and> \<not> ends_stop_DONE (fst (completion_generate_stream example_runtime (completion_request True)
          (Responded 200 [line_Hel, line_lo, line_done] None)))
   \<and> stop_count (fst (completion_generate_stream example_runtime (completion_request True)
          (Responded 200 [line_Hel, line_lo, line_done] None))) = 0
   \<and> ends_stop_DONE (fst (chat_generate_stream example_runtime (chat_request True)
          (Responded 200 [line_Hel, line_lo, line_done] None)))"
  by (simp add: completion_scenario chat_scenario is_done_event_def example_loads_simps dict_get_def
      ends_stop_DONE_def stop_count_def)




text \<open>
  C5.  The claim says that a line holding a JSON value that is not an object is discarded
  like any malformed line.  The loop catches \<^verbatim>\<open>JSONDecodeError\<close> only: on the line \<open>42\<close>
  the call \<^verbatim>\<open>data.get\<close> raises \<^verbatim>\<open>AttributeError\<close>.  The chat path then ends the stream
  with an error chunk that shows the exception text to the client, the completions path
  lets the exception escape its generator; the events after that line are lost, while
  without the line the chat path emits both texts, the stop chunk and \<open>[DONE]\<close>.
\<close>

theorem non_object_line_ends_stream:
  "chat_generate_stream example_runtime (chat_request True)
      (Responded 200 [line_Hel, line_42, line_lo, line_done] None)
   = ([create_stream_chunk example_runtime 0 (JStr ''Hel'') ''llama3'' None,
       create_stream_chunk example_runtime 1
         (JStr (''Error: '' @ [CHR 0x27] @ ''int'' @ [CHR 0x27] @ '' object has no attribute ''
                @ [CHR 0x27] @ ''get'' @ [CHR 0x27])) ''llama3'' (Some ''error'')], None)
   \<and> completion_generate_stream example_runtime (completion_request True)
      (Responded 200 [line_Hel, line_42, line_lo, line_done] None)
   = ([text_completion_chunk example_runtime 0 (JStr ''Hel'') ''llama3''],
      Some (AttributeError ([CHR 0x27] @ ''int'' @ [CHR 0x27] @ '' object has no attribute ''
                @ [CHR 0x27] @ ''get'' @ [CHR 0x27])))
   \<and> chat_generate_stream example_runtime (chat_request True)
      (Responded 200 [line_Hel, line_lo, line_done] None)
   = ([create_stream_chunk example_runtime 0 (JStr ''Hel'') ''llama3'' None,
       create_stream_chunk example_runtime 1 (JStr ''lo'') ''llama3'' None,
       create_stream_chunk example_runtime 2 (JStr []) ''llama3'' (Some ''stop''),
       DONE_line], None)"
  by (simp add: chat_generate_stream_def completion_generate_stream_def chat_line_def
      completion_line_def example_loads_simps example_requests and_then_def dict_get_def
      numeral_2_eq_2)

text \<open>
  C6.  The claim says that a fault while reading the stream gives one error chunk on both
  streaming paths.  The generator of \<^verbatim>\<open>completions\<close> has no handler: after the first text
  chunk the fault escapes the generator and no error chunk is emitted, whereas the chat
  path, on the same upstream behaviour, emits the error chunk.
\<close>

theorem completion_stream_fault_escapes:
  "completion_generate_stream example_runtime (completion_request True)
      (Responded 200 [line_Hel] (Some (RequestError ''peer closed connection'')))
   = ([text_completion_chunk example_runtime 0 (JStr ''Hel'') ''llama3''],
      Some (RequestError ''peer closed connection''))
   \<and> \<not> is_error_chunk (text_completion_chunk example_runtime 0 (JStr ''Hel'') ''llama3'')
   \<and> chat_generate_stream example_runtime (chat_request True)
      (Responded 200 [line_Hel] (Some (RequestError ''peer closed connection'')))
   = ([create_stream_chunk example_runtime 0 (JStr ''Hel'') ''llama3'' None,
       create_stream_chunk example_runtime 1 (JStr ''Error: peer closed connection'') ''llama3''
         (Some ''error'')], None)"
  by (simp add: chat_generate_stream_def completion_generate_stream_def chat_line_def
      completion_line_def example_loads_simps example_requests and_then_def dict_get_def
      is_error_chunk_def text_completion_chunk_def)

end
